theory Spec2Isabelle
  imports Main "HOL-Library.Word"
begin

unbundle bit_operations_syntax

section \<open>The Tegra186 PMC register block (drivers/platform/tegra/tegra186-pmc.c)\<close>

text \<open>
  Machine types of the driver. Tegra186 is an arm64 SoC, so the kernel's
  \<open>unsigned long\<close> has 64 bits, \<open>u32\<close>, \<open>unsigned int\<close> and \<open>int\<close> have 32.
  An \<open>int\<close> is kept as its two's complement bit pattern; the kernel is built
  with wrapping signed arithmetic, which is what \<open>+\<close> and \<open>*\<close> on words do.
\<close>

type_synonym u32 = "32 word"
type_synonym c_int = "32 word"
type_synonym ulong = "64 word"

subsection \<open>Register offsets and bit masks\<close>

text \<open>
  Modelled from the spec: the kernel macro \<open>BIT(nr)\<close> of \<open>linux/bitops.h\<close>, which
  the driver uses and which is not among the sources. The spec names the masks
  built with it as single bits (bits 0 and 1, bits 11 to 14); in the kernel it
  is \<open>1UL << nr\<close>, an \<open>unsigned long\<close>. The masks of \<open>PMC_FUSE_CTRL\<close> are
  written \<open>(1 << n)\<close> in the source and are 32-bit values.
\<close>

definition BIT :: "nat \<Rightarrow> ulong" where
  "BIT nr = push_bit nr 1"

definition PMC_SATA_PWRGT_0 :: u32 where "PMC_SATA_PWRGT_0 = 0x68"
definition PMC_IO_DPD_REQ :: u32 where "PMC_IO_DPD_REQ = 0x74"
definition PMC_IO_DPD_CSIA_MASK :: ulong where "PMC_IO_DPD_CSIA_MASK = BIT 0"
definition PMC_IO_DPD_CSIB_MASK :: ulong where "PMC_IO_DPD_CSIB_MASK = BIT 1"
definition PMC_IO_DPD_STATUS :: u32 where "PMC_IO_DPD_STATUS = 0x78"
definition PMC_IO_DPD2_REQ :: u32 where "PMC_IO_DPD2_REQ = 0x7C"
definition PMC_IO_DPD2_CSIC_MASK :: ulong where "PMC_IO_DPD2_CSIC_MASK = BIT 11"
definition PMC_IO_DPD2_CSID_MASK :: ulong where "PMC_IO_DPD2_CSID_MASK = BIT 12"
definition PMC_IO_DPD2_CSIE_MASK :: ulong where "PMC_IO_DPD2_CSIE_MASK = BIT 13"
definition PMC_IO_DPD2_CSIF_MASK :: ulong where "PMC_IO_DPD2_CSIF_MASK = BIT 14"
definition PMC_IO_SEL_DPD_TIM :: u32 where "PMC_IO_SEL_DPD_TIM = 0xBC"
definition PMC_UFSHC_PWR_CNTRL_0 :: u32 where "PMC_UFSHC_PWR_CNTRL_0 = 0xF4"
definition PMC_FUSE_CTRL :: u32 where "PMC_FUSE_CTRL = 0x100"
definition PMC_FUSE_CTRL_ENABLE_REDIRECTION :: u32 where
  "PMC_FUSE_CTRL_ENABLE_REDIRECTION = push_bit 0 1"
definition PMC_FUSE_CTRL_DISABLE_REDIRECTION :: u32 where
  "PMC_FUSE_CTRL_DISABLE_REDIRECTION = push_bit 1 1"
definition PMC_FUSE_CTRL_PS18_LATCH_SET :: u32 where
  "PMC_FUSE_CTRL_PS18_LATCH_SET = push_bit 8 1"
definition PMC_FUSE_CTRL_PS18_LATCH_CLEAR :: u32 where
  "PMC_FUSE_CTRL_PS18_LATCH_CLEAR = push_bit 9 1"

subsection \<open>State: the register block and what was done to it\<close>

text \<open>
  Modelled from the spec: the kernel primitives \<open>readl\<close>, \<open>writel\<close>,
  \<open>spin_lock\<close>, \<open>spin_unlock\<close>, \<open>spin_lock_irqsave\<close>,
  \<open>spin_unlock_irqrestore\<close>, \<open>udelay\<close>, \<open>mdelay\<close> and \<open>pr_info\<close>, which the
  driver calls and which are not among the sources. Each call of one of them
  is an event: taking and releasing \<open>tegra186_pmc_access_lock\<close>, the accesses
  \<open>readl(tegra186_pmc_base + reg)\<close> and \<open>writel(val, tegra186_pmc_base + reg)\<close>,
  the busy-waits and the two \<open>pr_info\<close> messages (with their arguments
  \<open>reg + 1\<close> and \<open>dpd_status\<close>).
\<close>

datatype event =
    Spin_lock_irqsave
  | Spin_unlock_irqrestore
  | Spin_lock
  | Spin_unlock
  | Readl u32 u32               \<comment> \<open>offset read, value obtained\<close>
  | Writel u32 u32              \<comment> \<open>value written, offset (the order of \<open>writel\<close>)\<close>
  | Udelay nat
  | Mdelay nat
  | Pr_info_enable_failed c_int u32
  | Pr_info_disable_failed c_int u32

text \<open>
  The register block is a store of 32-bit registers addressed by their byte
  offset from \<open>tegra186_pmc_base\<close>: a read returns what was last written
  there. The reaction of the hardware to a request is not part of the source;
  a status register holds whatever the state says. The trace lists the events
  in the order they happened. The functions of the driver are first modelled
  as one execution context runs them: every function releases the lock it
  takes, so taking it never waits. Two contexts running at once come further
  down, with the lock as part of the shared state.
\<close>

record pmc =
  regs :: "u32 \<Rightarrow> u32"
  trace :: "event list"

definition emit :: "event \<Rightarrow> pmc \<Rightarrow> pmc" where
  "emit e s = s\<lparr>trace := trace s @ [e]\<rparr>"

definition tegra186_pmc_readl :: "u32 \<Rightarrow> pmc \<Rightarrow> u32 \<times> pmc" where
  "tegra186_pmc_readl reg s = (regs s reg, emit (Readl reg (regs s reg)) s)"

definition tegra186_pmc_writel :: "u32 \<Rightarrow> u32 \<Rightarrow> pmc \<Rightarrow> pmc" where
  "tegra186_pmc_writel val reg s = emit (Writel val reg) (s\<lparr>regs := (regs s)(reg := val)\<rparr>)"

subsection \<open>Register access core\<close>

text \<open>
  The source's \<open>_tegra186_pmc_register_update\<close>. The expression
  \<open>(pmc_reg & ~mask) | (val & mask)\<close> is computed in \<open>unsigned long\<close> and
  stored into the \<open>u32\<close> variable \<open>pmc_reg\<close>, which keeps its low 32 bits.
  The parameter \<open>mask\<close> is written \<open>msk\<close>.
\<close>

definition tegra186_pmc_register_update_raw :: "c_int \<Rightarrow> ulong \<Rightarrow> ulong \<Rightarrow> pmc \<Rightarrow> pmc" where
  "tegra186_pmc_register_update_raw offset msk val s =
     (let (pmc_reg, s1) = tegra186_pmc_readl offset s;
          pmc_reg' = (ucast ((ucast pmc_reg AND NOT msk) OR (val AND msk)) :: u32)
      in tegra186_pmc_writel pmc_reg' offset s1)"

definition tegra186_pmc_register_update :: "c_int \<Rightarrow> ulong \<Rightarrow> ulong \<Rightarrow> pmc \<Rightarrow> pmc" where
  "tegra186_pmc_register_update offset msk val s =
     emit Spin_unlock_irqrestore
       (tegra186_pmc_register_update_raw offset msk val (emit Spin_lock_irqsave s))"

definition tegra_pmc_register_get :: "u32 \<Rightarrow> pmc \<Rightarrow> ulong \<times> pmc" where
  "tegra_pmc_register_get offset s =
     (let (v, s1) = tegra186_pmc_readl offset s in (ucast v, s1))"

text \<open>
  \<open>tegra_pmc_pad_voltage_update\<close>, \<open>tegra_pmc_nvcsi_ab_brick_update\<close>,
  \<open>tegra_pmc_nvcsi_cdef_brick_update\<close>, \<open>tegra_pmc_ufs_pwrcntrl_update\<close> and
  \<open>tegra_pmc_sata_pwrgt_update\<close> have the body of \<open>tegra186_pmc_register_update\<close>,
  the last four at a fixed offset.
\<close>

definition tegra_pmc_pad_voltage_update :: "u32 \<Rightarrow> ulong \<Rightarrow> ulong \<Rightarrow> pmc \<Rightarrow> pmc" where
  "tegra_pmc_pad_voltage_update reg msk val s =
     emit Spin_unlock_irqrestore
       (tegra186_pmc_register_update_raw reg msk val (emit Spin_lock_irqsave s))"

definition tegra_pmc_nvcsi_ab_brick_update :: "ulong \<Rightarrow> ulong \<Rightarrow> pmc \<Rightarrow> pmc" where
  "tegra_pmc_nvcsi_ab_brick_update msk val s =
     emit Spin_unlock_irqrestore
       (tegra186_pmc_register_update_raw PMC_IO_DPD_REQ msk val (emit Spin_lock_irqsave s))"

definition tegra_pmc_nvcsi_cdef_brick_update :: "ulong \<Rightarrow> ulong \<Rightarrow> pmc \<Rightarrow> pmc" where
  "tegra_pmc_nvcsi_cdef_brick_update msk val s =
     emit Spin_unlock_irqrestore
       (tegra186_pmc_register_update_raw PMC_IO_DPD2_REQ msk val (emit Spin_lock_irqsave s))"

definition tegra_pmc_ufs_pwrcntrl_update :: "ulong \<Rightarrow> ulong \<Rightarrow> pmc \<Rightarrow> pmc" where
  "tegra_pmc_ufs_pwrcntrl_update msk val s =
     emit Spin_unlock_irqrestore
       (tegra186_pmc_register_update_raw PMC_UFSHC_PWR_CNTRL_0 msk val (emit Spin_lock_irqsave s))"

definition tegra_pmc_sata_pwrgt_update :: "ulong \<Rightarrow> ulong \<Rightarrow> pmc \<Rightarrow> pmc" where
  "tegra_pmc_sata_pwrgt_update msk val s =
     emit Spin_unlock_irqrestore
       (tegra186_pmc_register_update_raw PMC_SATA_PWRGT_0 msk val (emit Spin_lock_irqsave s))"

subsection \<open>DPD group controller\<close>

text \<open>
  The source's \<open>(1 << bit_pos)\<close> on an \<open>int\<close>. For \<open>bit_pos\<close> from 0 to 31 it is
  the word with that one bit set. Outside that range C leaves the shift
  undefined; the arm64 shift instruction the expression compiles to takes the
  amount modulo 32 (the low five bits of \<open>bit_pos\<close>), and so does the model:
  \<open>bit_pos = 32\<close> gives 1, as \<open>bit_pos = 0\<close> does.
\<close>

definition shl1 :: "c_int \<Rightarrow> u32" where
  "shl1 bit_pos = push_bit (unat bit_pos mod 32) 1"

definition tegra186_pmc_io_dpd_enable :: "c_int \<Rightarrow> c_int \<Rightarrow> pmc \<Rightarrow> c_int \<times> pmc" where
  "tegra186_pmc_io_dpd_enable reg bit_pos s =
     (let s1 = emit Spin_lock s;
          s2 = tegra186_pmc_writel 0x10 PMC_IO_SEL_DPD_TIM s1;
          enable_mask = shl1 bit_pos;
          s3 = tegra186_pmc_writel enable_mask (PMC_IO_DPD_REQ + reg * 8) s2;
          s4 = emit (Udelay 7) s3;
          (dpd_status, s5) = tegra186_pmc_readl (PMC_IO_DPD_STATUS + reg * 8) s4;
          s6 = (if dpd_status AND shl1 bit_pos = 0
                then emit (Pr_info_enable_failed (reg + 1) dpd_status) s5 else s5);
          s7 = emit Spin_unlock s6
      in (0, s7))"

definition tegra186_pmc_io_dpd_disable :: "c_int \<Rightarrow> c_int \<Rightarrow> pmc \<Rightarrow> c_int \<times> pmc" where
  "tegra186_pmc_io_dpd_disable reg bit_pos s =
     (let s1 = emit Spin_lock s;
          enable_mask = shl1 bit_pos;
          s2 = tegra186_pmc_writel enable_mask (PMC_IO_DPD_REQ + reg * 8) s1;
          s3 = emit (Udelay 7) s2;
          (dpd_status, s4) = tegra186_pmc_readl (PMC_IO_DPD_STATUS + reg * 8) s3;
          s5 = (if dpd_status AND shl1 bit_pos \<noteq> 0
                then emit (Pr_info_disable_failed (reg + 1) dpd_status) s4 else s4);
          s6 = emit Spin_unlock s5
      in (0, s6))"

subsection \<open>Composite helpers\<close>

text \<open>
  In \<open>val |= BIT(n)\<close> and \<open>val &= ~(...)\<close> the \<open>u32\<close> variable is widened to
  \<open>unsigned long\<close>, combined with the mask, and the low 32 bits are stored back.
\<close>

definition tegra186_pmc_enable_nvcsi_brick_dpd :: "pmc \<Rightarrow> pmc" where
  "tegra186_pmc_enable_nvcsi_brick_dpd s =
     (let (val, s1) = tegra186_pmc_readl PMC_IO_DPD_REQ s;
          val = (ucast (ucast val OR PMC_IO_DPD_CSIA_MASK) :: u32);
          val = (ucast (ucast val OR PMC_IO_DPD_CSIB_MASK) :: u32);
          s2 = tegra186_pmc_writel val PMC_IO_DPD_REQ s1;
          (val, s3) = tegra186_pmc_readl PMC_IO_DPD2_REQ s2;
          val = (ucast (ucast val OR (PMC_IO_DPD2_CSIC_MASK OR PMC_IO_DPD2_CSID_MASK OR
                                      PMC_IO_DPD2_CSIE_MASK OR PMC_IO_DPD2_CSIF_MASK)) :: u32)
      in tegra186_pmc_writel val PMC_IO_DPD2_REQ s3)"

definition tegra186_pmc_disable_nvcsi_brick_dpd :: "pmc \<Rightarrow> pmc" where
  "tegra186_pmc_disable_nvcsi_brick_dpd s =
     (let (val, s1) = tegra186_pmc_readl PMC_IO_DPD_REQ s;
          val = (ucast (ucast val AND NOT (PMC_IO_DPD_CSIA_MASK OR PMC_IO_DPD_CSIB_MASK)) :: u32);
          s2 = tegra186_pmc_writel val PMC_IO_DPD_REQ s1;
          (val, s3) = tegra186_pmc_readl PMC_IO_DPD2_REQ s2;
          val = (ucast (ucast val AND NOT (PMC_IO_DPD2_CSIC_MASK OR PMC_IO_DPD2_CSID_MASK OR
                                           PMC_IO_DPD2_CSIE_MASK OR PMC_IO_DPD2_CSIF_MASK)) :: u32)
      in tegra186_pmc_writel val PMC_IO_DPD2_REQ s3)"

definition tegra_pmc_iopower_enable :: "c_int \<Rightarrow> u32 \<Rightarrow> pmc \<Rightarrow> pmc" where
  "tegra_pmc_iopower_enable reg bit_mask s =
     tegra186_pmc_register_update reg (ucast bit_mask) 0 s"

definition tegra_pmc_iopower_disable :: "c_int \<Rightarrow> u32 \<Rightarrow> pmc \<Rightarrow> pmc" where
  "tegra_pmc_iopower_disable reg bit_mask s =
     tegra186_pmc_register_update reg (ucast bit_mask) (ucast bit_mask) s"

definition tegra_pmc_iopower_get_status :: "c_int \<Rightarrow> u32 \<Rightarrow> pmc \<Rightarrow> c_int \<times> pmc" where
  "tegra_pmc_iopower_get_status reg bit_mask s =
     (let (no_iopower, s1) = tegra186_pmc_readl reg s
      in (if no_iopower AND bit_mask \<noteq> 0 then 0 else 1, s1))"

subsection \<open>Fuse latch controller\<close>

definition tegra_pmc_fuse_control_ps18_latch_set :: "pmc \<Rightarrow> pmc" where
  "tegra_pmc_fuse_control_ps18_latch_set s =
     (let (val, s1) = tegra186_pmc_readl PMC_FUSE_CTRL s;
          val = val AND NOT PMC_FUSE_CTRL_PS18_LATCH_CLEAR;
          s2 = tegra186_pmc_writel val PMC_FUSE_CTRL s1;
          s3 = emit (Mdelay 1) s2;
          val = val OR PMC_FUSE_CTRL_PS18_LATCH_SET;
          s4 = tegra186_pmc_writel val PMC_FUSE_CTRL s3
      in emit (Mdelay 1) s4)"

definition tegra_pmc_fuse_control_ps18_latch_clear :: "pmc \<Rightarrow> pmc" where
  "tegra_pmc_fuse_control_ps18_latch_clear s =
     (let (val, s1) = tegra186_pmc_readl PMC_FUSE_CTRL s;
          val = val AND NOT PMC_FUSE_CTRL_PS18_LATCH_SET;
          s2 = tegra186_pmc_writel val PMC_FUSE_CTRL s1;
          s3 = emit (Mdelay 1) s2;
          val = val OR PMC_FUSE_CTRL_PS18_LATCH_CLEAR;
          s4 = tegra186_pmc_writel val PMC_FUSE_CTRL s3
      in emit (Mdelay 1) s4)"

definition tegra_pmc_fuse_disable_mirroring :: "pmc \<Rightarrow> pmc" where
  "tegra_pmc_fuse_disable_mirroring s =
     (let (val, s1) = tegra186_pmc_readl PMC_FUSE_CTRL s
      in if val AND PMC_FUSE_CTRL_ENABLE_REDIRECTION \<noteq> 0
         then tegra186_pmc_writel PMC_FUSE_CTRL_DISABLE_REDIRECTION PMC_FUSE_CTRL s1
         else s1)"

definition tegra_pmc_fuse_enable_mirroring :: "pmc \<Rightarrow> pmc" where
  "tegra_pmc_fuse_enable_mirroring s =
     (let (val, s1) = tegra186_pmc_readl PMC_FUSE_CTRL s
      in if val AND PMC_FUSE_CTRL_ENABLE_REDIRECTION = 0
         then tegra186_pmc_writel PMC_FUSE_CTRL_ENABLE_REDIRECTION PMC_FUSE_CTRL s1
         else s1)"

subsection \<open>Reading a trace\<close>

text \<open>
  The writes of a trace, in order, as pairs of value and offset; and whether
  every write of a trace happens while the lock is held, given whether it is
  held at the start.
\<close>

fun writes_of :: "event list \<Rightarrow> (u32 \<times> u32) list" where
  "writes_of [] = []"
| "writes_of (Writel v r # es) = (v, r) # writes_of es"
| "writes_of (e # es) = writes_of es"

fun writes_guarded :: "bool \<Rightarrow> event list \<Rightarrow> bool" where
  "writes_guarded held [] = True"
| "writes_guarded held (Spin_lock_irqsave # es) = writes_guarded True es"
| "writes_guarded held (Spin_lock # es) = writes_guarded True es"
| "writes_guarded held (Spin_unlock_irqrestore # es) = writes_guarded False es"
| "writes_guarded held (Spin_unlock # es) = writes_guarded False es"
| "writes_guarded held (Writel v r # es) = (held \<and> writes_guarded held es)"
| "writes_guarded held (e # es) = writes_guarded held es"

text \<open>The events a call adds to the trace of the state it starts from.\<close>

definition events_of :: "pmc \<Rightarrow> pmc \<Rightarrow> event list" where
  "events_of s s' = drop (length (trace s)) (trace s')"

text \<open>A register block in which every register reads 0 and nothing has happened yet.\<close>

definition zeroed :: pmc where
  "zeroed = \<lparr>regs = (\<lambda>_. 0), trace = []\<rparr>"

section \<open>Two contexts calling \<open>tegra186_pmc_register_update\<close> at once\<close>

text \<open>
  For the claim about concurrent updates the function is cut at its shared
  accesses. One activation of \<open>tegra186_pmc_register_update\<close> is at one of six
  places: before \<open>spin_lock_irqsave\<close>, before the \<open>readl\<close>, before the
  assignment that merges the bits, before the \<open>writel\<close>, before
  \<open>spin_unlock_irqrestore\<close>, or returned. It holds its three arguments and
  its local variable \<open>pmc_reg\<close>. A context that finds the lock taken spins: its
  step changes nothing.
\<close>

datatype pc = At_lock | At_read | At_modify | At_write | At_unlock | Returned

record call =
  pc :: pc
  arg_offset :: c_int
  arg_mask :: ulong
  arg_val :: ulong
  pmc_reg :: u32

record shared =
  block :: "u32 \<Rightarrow> u32"       \<comment> \<open>the register block\<close>
  access_lock :: bool            \<comment> \<open>whether \<open>tegra186_pmc_access_lock\<close> is held\<close>

definition call_step :: "call \<Rightarrow> shared \<Rightarrow> call \<times> shared" where
  "call_step c sh =
     (case pc c of
        At_lock \<Rightarrow>
          if access_lock sh then (c, sh)
          else (c\<lparr>pc := At_read\<rparr>, sh\<lparr>access_lock := True\<rparr>)
      | At_read \<Rightarrow> (c\<lparr>pc := At_modify, pmc_reg := block sh (arg_offset c)\<rparr>, sh)
      | At_modify \<Rightarrow>
          (c\<lparr>pc := At_write,
             pmc_reg := ucast ((ucast (pmc_reg c) AND NOT (arg_mask c)) OR
                               (arg_val c AND arg_mask c))\<rparr>, sh)
      | At_write \<Rightarrow>
          (c\<lparr>pc := At_unlock\<rparr>, sh\<lparr>block := (block sh)(arg_offset c := pmc_reg c)\<rparr>)
      | At_unlock \<Rightarrow> (c\<lparr>pc := Returned\<rparr>, sh\<lparr>access_lock := False\<rparr>)
      | Returned \<Rightarrow> (c, sh))"

text \<open>
  A call starts before the lock; the C local \<open>pmc_reg\<close> is not initialised, so
  its first value is a parameter.
\<close>

definition enter :: "c_int \<Rightarrow> ulong \<Rightarrow> ulong \<Rightarrow> u32 \<Rightarrow> call" where
  "enter offset msk val junk =
     \<lparr>pc = At_lock, arg_offset = offset, arg_mask = msk, arg_val = val, pmc_reg = junk\<rparr>"

text \<open>
  Two contexts and the shared state; a schedule says which of them takes the
  next step.
\<close>

datatype cpu = CPU_A | CPU_B

type_synonym system = "call \<times> call \<times> shared"

fun sys_step :: "cpu \<Rightarrow> system \<Rightarrow> system" where
  "sys_step CPU_A (a, b, sh) = (let (a', sh') = call_step a sh in (a', b, sh'))"
| "sys_step CPU_B (a, b, sh) = (let (b', sh') = call_step b sh in (a, b', sh'))"

definition run :: "cpu list \<Rightarrow> system \<Rightarrow> system" where
  "run sched c = fold sys_step sched c"

definition both_returned :: "system \<Rightarrow> bool" where
  "both_returned c = (case c of (a, b, sh) \<Rightarrow> pc a = Returned \<and> pc b = Returned)"

definition final_block :: "system \<Rightarrow> u32 \<Rightarrow> u32" where
  "final_block c = (case c of (a, b, sh) \<Rightarrow> block sh)"

subsection \<open>An update racing with the brick DPD enable\<close>

text \<open>
  \<open>tegra186_pmc_enable_nvcsi_brick_dpd\<close> cut at its shared accesses in the
  same way: before the \<open>readl\<close> of \<open>PMC_IO_DPD_REQ\<close>, before the \<open>writel\<close> to
  it, before the \<open>readl\<close> of \<open>PMC_IO_DPD2_REQ\<close>, before the \<open>writel\<close> to it,
  or returned. The \<open>|=\<close> on the local \<open>val\<close> is done with the read before it.
  No step looks at the lock or changes it.
\<close>

datatype brick_pc =
  Brick_read_ab | Brick_write_ab | Brick_read_cdef | Brick_write_cdef | Brick_returned

record brick_call =
  brick_pc :: brick_pc
  brick_val :: u32

definition brick_enable_step :: "brick_call \<Rightarrow> shared \<Rightarrow> brick_call \<times> shared" where
  "brick_enable_step c sh =
     (case brick_pc c of
        Brick_read_ab \<Rightarrow>
          (c\<lparr>brick_pc := Brick_write_ab,
             brick_val := ucast (ucast (ucast (ucast (block sh PMC_IO_DPD_REQ)
                                   OR PMC_IO_DPD_CSIA_MASK) :: u32) OR PMC_IO_DPD_CSIB_MASK)\<rparr>, sh)
      | Brick_write_ab \<Rightarrow>
          (c\<lparr>brick_pc := Brick_read_cdef\<rparr>,
           sh\<lparr>block := (block sh)(PMC_IO_DPD_REQ := brick_val c)\<rparr>)
      | Brick_read_cdef \<Rightarrow>
          (c\<lparr>brick_pc := Brick_write_cdef,
             brick_val := ucast (ucast (block sh PMC_IO_DPD2_REQ) OR
               (PMC_IO_DPD2_CSIC_MASK OR PMC_IO_DPD2_CSID_MASK OR
                PMC_IO_DPD2_CSIE_MASK OR PMC_IO_DPD2_CSIF_MASK))\<rparr>, sh)
      | Brick_write_cdef \<Rightarrow>
          (c\<lparr>brick_pc := Brick_returned\<rparr>,
           sh\<lparr>block := (block sh)(PMC_IO_DPD2_REQ := brick_val c)\<rparr>)
      | Brick_returned \<Rightarrow> (c, sh))"

text \<open>
  Context A runs a locked update (\<open>tegra_pmc_nvcsi_ab_brick_update\<close> is
  \<open>tegra186_pmc_register_update\<close> at \<open>PMC_IO_DPD_REQ\<close>), context B the brick
  DPD enable.
\<close>

type_synonym race_system = "call \<times> brick_call \<times> shared"

fun race_step :: "cpu \<Rightarrow> race_system \<Rightarrow> race_system" where
  "race_step CPU_A (a, b, sh) = (let (a', sh') = call_step a sh in (a', b, sh'))"
| "race_step CPU_B (a, b, sh) = (let (b', sh') = brick_enable_step b sh in (a, b', sh'))"

definition race_run :: "cpu list \<Rightarrow> race_system \<Rightarrow> race_system" where
  "race_run sched c = fold race_step sched c"

definition race_returned :: "race_system \<Rightarrow> bool" where
  "race_returned c = (case c of (a, b, sh) \<Rightarrow> pc a = Returned \<and> brick_pc b = Brick_returned)"

definition race_block :: "race_system \<Rightarrow> u32 \<Rightarrow> u32" where
  "race_block c = (case c of (a, b, sh) \<Rightarrow> block sh)"

text \<open>What the proofs about schedules keep track of.\<close>

definition rmw_val :: "u32 \<Rightarrow> ulong \<Rightarrow> ulong \<Rightarrow> u32" where
  "rmw_val r msk val = ucast ((ucast r AND NOT msk) OR (val AND msk))"

definition written :: "call \<Rightarrow> bool" where
  "written c = (pc c = At_unlock \<or> pc c = Returned)"

definition in_cs :: "call \<Rightarrow> bool" where
  "in_cs c = (pc c = At_read \<or> pc c = At_modify \<or> pc c = At_write \<or> pc c = At_unlock)"

definition local_ok :: "call \<Rightarrow> shared \<Rightarrow> bool" where
  "local_ok c sh =
     ((pc c = At_modify \<longrightarrow> pmc_reg c = block sh (arg_offset c)) \<and>
      (pc c = At_write \<longrightarrow>
         pmc_reg c = rmw_val (block sh (arg_offset c)) (arg_mask c) (arg_val c)))"

definition interleave_inv ::
  "c_int \<Rightarrow> ulong \<Rightarrow> ulong \<Rightarrow> ulong \<Rightarrow> ulong \<Rightarrow> u32 \<Rightarrow> system \<Rightarrow> bool" where
  "interleave_inv offset m1 v1 m2 v2 r0 c =
     (case c of (a, b, sh) \<Rightarrow>
        arg_offset a = offset \<and> arg_mask a = m1 \<and> arg_val a = v1 \<and>
        arg_offset b = offset \<and> arg_mask b = m2 \<and> arg_val b = v2 \<and>
        access_lock sh = (in_cs a \<or> in_cs b) \<and> \<not> (in_cs a \<and> in_cs b) \<and>
        local_ok a sh \<and> local_ok b sh \<and>
        block sh offset =
          (if written a then (if written b then rmw_val (rmw_val r0 m1 v1) m2 v2
                              else rmw_val r0 m1 v1)
           else (if written b then rmw_val r0 m2 v2 else r0)))"

section \<open>Basic facts about the accessors\<close>

lemmas pmc_consts =
  BIT_def PMC_SATA_PWRGT_0_def PMC_IO_DPD_REQ_def PMC_IO_DPD_CSIA_MASK_def
  PMC_IO_DPD_CSIB_MASK_def PMC_IO_DPD_STATUS_def PMC_IO_DPD2_REQ_def
  PMC_IO_DPD2_CSIC_MASK_def PMC_IO_DPD2_CSID_MASK_def PMC_IO_DPD2_CSIE_MASK_def
  PMC_IO_DPD2_CSIF_MASK_def PMC_IO_SEL_DPD_TIM_def PMC_UFSHC_PWR_CNTRL_0_def
  PMC_FUSE_CTRL_def PMC_FUSE_CTRL_ENABLE_REDIRECTION_def
  PMC_FUSE_CTRL_DISABLE_REDIRECTION_def PMC_FUSE_CTRL_PS18_LATCH_SET_def
  PMC_FUSE_CTRL_PS18_LATCH_CLEAR_def

lemma regs_emit [simp]: "regs (emit e s) = regs s"
  by (simp add: emit_def)

lemma trace_emit [simp]: "trace (emit e s) = trace s @ [e]"
  by (simp add: emit_def)

lemma readl_simps [simp]:
  "fst (tegra186_pmc_readl reg s) = regs s reg"
  "regs (snd (tegra186_pmc_readl reg s)) = regs s"
  "trace (snd (tegra186_pmc_readl reg s)) = trace s @ [Readl reg (regs s reg)]"
  by (simp_all add: tegra186_pmc_readl_def)

lemma writel_simps [simp]:
  "regs (tegra186_pmc_writel val reg s) = (regs s)(reg := val)"
  "trace (tegra186_pmc_writel val reg s) = trace s @ [Writel val reg]"
  by (simp_all add: tegra186_pmc_writel_def)

lemma get_simps [simp]:
  "fst (tegra_pmc_register_get offset s) = ucast (regs s offset)"
  "regs (snd (tegra_pmc_register_get offset s)) = regs s"
  by (simp_all add: tegra_pmc_register_get_def split_beta)

lemma writes_of_append [simp]: "writes_of (xs @ ys) = writes_of xs @ writes_of ys"
  by (induction xs rule: writes_of.induct) simp_all

lemma zeroed_simps [simp]: "regs zeroed r = 0" "trace zeroed = []"
  by (simp_all add: zeroed_def)

section \<open>Words: merging bits under a mask\<close>

lemma ucast_and_down: "(ucast ((a::ulong) AND b) :: u32) = ucast a AND ucast b"
  by (rule bit_eqI) (auto simp: bit_simps)

lemma ucast_or_down: "(ucast ((a::ulong) OR b) :: u32) = ucast a OR ucast b"
  by (rule bit_eqI) (auto simp: bit_simps)

lemma ucast_up_down: "(ucast (ucast (m::u32) :: ulong) :: u32) = m"
  by (rule bit_eqI) (auto simp: bit_simps)

lemma ucast_or_low: "(ucast ((ucast (v::u32) :: ulong) OR m) :: u32) = v OR ucast m"
  by (rule bit_eqI) (auto simp: bit_simps)

lemma ucast_and_not_low:
  "(ucast ((ucast (v::u32) :: ulong) AND NOT m) :: u32) = v AND NOT (ucast m)"
  by (rule bit_eqI) (auto simp: bit_simps)

lemma rmw_val32: "rmw_val r m v = (r AND NOT (ucast m)) OR (ucast v AND ucast m)"
  unfolding rmw_val_def by (rule bit_eqI) (auto simp: bit_simps)

lemma low_32_mask: "(0xFFFFFFFF :: ulong) = mask 32"
  by (simp add: mask_eq_exp_minus_1)

lemma rmw_val_inside_wide: "ucast (rmw_val r m v) AND m = (v AND m) AND (0xFFFFFFFF :: ulong)"
  unfolding low_32_mask rmw_val_def
  by (rule bit_eqI) (auto simp add: bit_simps dest: bit_imp_le_length)

lemma rmw_val_outside_wide: "ucast (rmw_val r m v) AND NOT m = (ucast r :: ulong) AND NOT m"
  unfolding rmw_val_def
  by (rule bit_eqI) (auto simp add: bit_simps dest: bit_imp_le_length)

lemma rmw_inside: "((r AND NOT m) OR (v AND m)) AND m = v AND (m :: u32)"
  by (rule bit_eqI) (auto simp: bit_simps)

lemma disjoint_bits:
  fixes m1 m2 :: u32
  assumes "m1 AND m2 = 0"
  shows "\<not> (bit m1 n \<and> bit m2 n)"
proof
  assume "bit m1 n \<and> bit m2 n"
  then have "bit (m1 AND m2) n" by (simp add: bit_and_iff)
  then show False by (simp add: assms)
qed

lemma rmw_commute:
  fixes m1 m2 :: u32
  assumes "m1 AND m2 = 0"
  shows "((((r AND NOT m1) OR (v1 AND m1)) AND NOT m2) OR (v2 AND m2)) =
         ((((r AND NOT m2) OR (v2 AND m2)) AND NOT m1) OR (v1 AND m1))"
  using disjoint_bits [OF assms] by (intro bit_eqI) (auto simp: bit_simps)

lemma rmw_first_kept:
  fixes m1 m2 :: u32
  assumes "m1 AND m2 = 0"
  shows "((((r AND NOT m1) OR (v1 AND m1)) AND NOT m2) OR (v2 AND m2)) AND m1 = v1 AND m1"
  using disjoint_bits [OF assms] by (intro bit_eqI) (auto simp: bit_simps)

lemma rmw_rest_kept:
  fixes m1 m2 :: u32
  shows "((((r AND NOT m1) OR (v1 AND m1)) AND NOT m2) OR (v2 AND m2)) AND NOT (m1 OR m2)
           = r AND NOT (m1 OR m2)"
  by (intro bit_eqI) (auto simp: bit_simps)

lemma rmw_val_commute:
  assumes "m1 AND m2 = 0"
  shows "rmw_val (rmw_val r m2 v2) m1 v1 = rmw_val (rmw_val r m1 v1) m2 v2"
proof -
  have d: "(ucast m1 :: u32) AND ucast m2 = 0"
    by (simp add: ucast_and_down [symmetric] assms)
  show ?thesis unfolding rmw_val32 by (rule rmw_commute [OF d, symmetric])
qed

lemma clear_then_set_has: "((x AND NOT c) OR t) AND t = (t :: u32)"
  by (rule bit_eqI) (auto simp: bit_simps)

lemma clear_then_set_hasnt: "t AND c = 0 \<Longrightarrow> ((x AND NOT c) OR t) AND c = (0 :: u32)"
  by (simp add: bit.conj_disj_distrib2 and.assoc)

lemma and_not_self: "(r AND NOT m) AND m = (0::u32)"
  by (rule bit_eqI) (auto simp: bit_simps)

lemma and_not_idem: "(r AND NOT m) AND NOT m = r AND NOT (m::u32)"
  by (rule bit_eqI) (auto simp: bit_simps)

lemma or_self_outside: "((r AND NOT m) OR m) AND NOT m = r AND NOT (m::u32)"
  by (rule bit_eqI) (auto simp: bit_simps)

subsection \<open>The bits of the brick masks\<close>

lemma bit_3_int: "bit (3::int) n \<longleftrightarrow> n = 0 \<or> n = 1"
proof -
  have e: "(3::int) = mask 2" by (simp add: mask_eq_exp_minus_1)
  show ?thesis unfolding e by (auto simp: bit_mask_iff less_2_cases_iff)
qed

lemma bit_7800_int:
  "bit (0x7800::int) n \<longleftrightarrow> n = 11 \<or> n = 12 \<or> n = 13 \<or> n = 14"
proof -
  have e: "(0x7800::int) = push_bit 11 (mask 4)" by (simp add: mask_eq_exp_minus_1)
  have "bit (0x7800::int) n \<longleftrightarrow> 11 \<le> n \<and> n < 15"
    unfolding e by (auto simp: bit_push_bit_iff bit_mask_iff)
  then show ?thesis by auto
qed

lemma bit_not_3_int: "bit (- 4::int) n \<longleftrightarrow> n \<noteq> 0 \<and> n \<noteq> 1"
proof -
  have e: "(- 4::int) = NOT 3" by (simp add: not_int_def)
  have "bit (NOT 3 :: int) n \<longleftrightarrow> \<not> bit (3 :: int) n" by (rule bit_not_int_iff)
  then show ?thesis by (simp only: e bit_3_int) simp
qed

lemma bit_not_7800_int: "bit (- 30721::int) n \<longleftrightarrow> n \<notin> {11, 12, 13, 14}"
proof -
  have e: "(- 30721::int) = NOT 0x7800" by (simp add: not_int_def)
  have "bit (NOT 0x7800 :: int) n \<longleftrightarrow> \<not> bit (0x7800 :: int) n" by (rule bit_not_int_iff)
  then show ?thesis by (simp only: e bit_7800_int) simp
qed

lemma brick_masks:
  "(ucast PMC_IO_DPD_CSIA_MASK :: u32) = 1" "(ucast PMC_IO_DPD_CSIB_MASK :: u32) = 2"
  "(ucast (PMC_IO_DPD_CSIA_MASK OR PMC_IO_DPD_CSIB_MASK) :: u32) = 3"
  "(ucast (PMC_IO_DPD2_CSIC_MASK OR PMC_IO_DPD2_CSID_MASK OR
      PMC_IO_DPD2_CSIE_MASK OR PMC_IO_DPD2_CSIF_MASK) :: u32) = 0x7800"
  by (simp_all add: pmc_consts)

lemma or_1_2: "(v OR 1) OR 2 = v OR (3::u32)"
  by (simp add: or.assoc)

subsection \<open>The status register of a group is neither its request register nor the timer\<close>

lemma status_neq_tim: "(0x78 + g * 8 :: u32) \<noteq> 0xBC"
proof
  assume eq: "(0x78 + g * 8 :: u32) = 0xBC"
  have e: "(0x78 + g * 8 :: u32) = push_bit 3 (g + 15)"
    by (simp add: push_bit_eq_mult algebra_simps)
  have n: "\<not> bit (push_bit 3 (g + 15) :: u32) 2"
    by (simp add: bit_push_bit_iff)
  have "bit (0xBC :: u32) 2" by simp
  then have "bit (push_bit 3 (g + 15) :: u32) 2"
    by (simp only: eq [symmetric] e)
  with n show False by blast
qed

section \<open>What each function does to the registers and to the trace\<close>

lemma regs_register_update_raw:
  "regs (tegra186_pmc_register_update_raw offset msk val s) =
     (regs s)(offset := rmw_val (regs s offset) msk val)"
  by (simp add: tegra186_pmc_register_update_raw_def split_beta Let_def rmw_val_def)

lemma trace_register_update_raw:
  "trace (tegra186_pmc_register_update_raw offset msk val s) = trace s @
     [Readl offset (regs s offset), Writel (rmw_val (regs s offset) msk val) offset]"
  by (simp add: tegra186_pmc_register_update_raw_def split_beta Let_def rmw_val_def)

lemma regs_register_update:
  "regs (tegra186_pmc_register_update offset msk val s) =
     (regs s)(offset := rmw_val (regs s offset) msk val)"
  by (simp add: tegra186_pmc_register_update_def regs_register_update_raw)

lemma trace_register_update:
  "trace (tegra186_pmc_register_update offset msk val s) = trace s @
     [Spin_lock_irqsave, Readl offset (regs s offset),
      Writel (rmw_val (regs s offset) msk val) offset, Spin_unlock_irqrestore]"
  by (simp add: tegra186_pmc_register_update_def trace_register_update_raw)

lemma trace_nvcsi_ab_brick_update:
  "trace (tegra_pmc_nvcsi_ab_brick_update msk val s) = trace s @
     [Spin_lock_irqsave, Readl PMC_IO_DPD_REQ (regs s PMC_IO_DPD_REQ),
      Writel (rmw_val (regs s PMC_IO_DPD_REQ) msk val) PMC_IO_DPD_REQ, Spin_unlock_irqrestore]"
  by (simp add: tegra_pmc_nvcsi_ab_brick_update_def trace_register_update_raw)

lemma dpd_enable_trace:
  "trace (snd (tegra186_pmc_io_dpd_enable g b s)) = trace s @
     [Spin_lock, Writel 0x10 0xBC, Writel (shl1 b) (0x74 + g * 8), Udelay 7,
      Readl (0x78 + g * 8) (regs s (0x78 + g * 8))] @
     (if regs s (0x78 + g * 8) AND shl1 b = 0
      then [Pr_info_enable_failed (g + 1) (regs s (0x78 + g * 8))] else []) @
     [Spin_unlock]"
  using status_neq_tim [of g]
  by (simp add: tegra186_pmc_io_dpd_enable_def Let_def split_beta pmc_consts)

lemma dpd_disable_trace:
  "trace (snd (tegra186_pmc_io_dpd_disable g b s)) = trace s @
     [Spin_lock, Writel (shl1 b) (0x74 + g * 8), Udelay 7,
      Readl (0x78 + g * 8) (regs s (0x78 + g * 8))] @
     (if regs s (0x78 + g * 8) AND shl1 b \<noteq> 0
      then [Pr_info_disable_failed (g + 1) (regs s (0x78 + g * 8))] else []) @
     [Spin_unlock]"
  by (simp add: tegra186_pmc_io_dpd_disable_def Let_def split_beta pmc_consts)

lemma shl1_in_range: "unat b < 32 \<Longrightarrow> shl1 b = push_bit (unat b) 1"
  by (simp add: shl1_def)

lemma shl1_examples: "shl1 0 = 1" "shl1 11 = 0x800" "shl1 31 = 0x80000000" "shl1 32 = 1"
  by (simp_all add: shl1_def)

text \<open>
  For the groups 0 to 7 the request register lies below the timer register at
  \<open>0xBC\<close> (group 9 would fall on it).
\<close>

lemma req_neq_tim:
  assumes "unat g < 8"
  shows "(0x74 + g * 8 :: u32) \<noteq> 0xBC"
proof
  assume "(0x74 + g * 8 :: u32) = 0xBC"
  then have "g * 8 = (72 :: u32)" by auto
  then have "unat (g * 8) = 72" by simp
  moreover have "unat (g * 8) = (unat g * 8) mod 2 ^ 32"
    by (simp add: unat_word_ariths)
  moreover have "(unat g * 8) mod 2 ^ 32 = unat g * 8"
    using assms by simp
  ultimately have "unat g * 8 = 72" by simp
  with assms show False by simp
qed

lemma latch_set_regs:
  "regs (tegra_pmc_fuse_control_ps18_latch_set s) =
     (regs s)(PMC_FUSE_CTRL :=
        (regs s PMC_FUSE_CTRL AND NOT PMC_FUSE_CTRL_PS18_LATCH_CLEAR) OR
        PMC_FUSE_CTRL_PS18_LATCH_SET)"
  by (simp add: tegra_pmc_fuse_control_ps18_latch_set_def Let_def split_beta)

lemma latch_clear_regs:
  "regs (tegra_pmc_fuse_control_ps18_latch_clear s) =
     (regs s)(PMC_FUSE_CTRL :=
        (regs s PMC_FUSE_CTRL AND NOT PMC_FUSE_CTRL_PS18_LATCH_SET) OR
        PMC_FUSE_CTRL_PS18_LATCH_CLEAR)"
  by (simp add: tegra_pmc_fuse_control_ps18_latch_clear_def Let_def split_beta)

lemma latch_set_trace:
  "trace (tegra_pmc_fuse_control_ps18_latch_set s) = trace s @
     [Readl PMC_FUSE_CTRL (regs s PMC_FUSE_CTRL),
      Writel (regs s PMC_FUSE_CTRL AND NOT PMC_FUSE_CTRL_PS18_LATCH_CLEAR) PMC_FUSE_CTRL,
      Mdelay 1,
      Writel ((regs s PMC_FUSE_CTRL AND NOT PMC_FUSE_CTRL_PS18_LATCH_CLEAR) OR
              PMC_FUSE_CTRL_PS18_LATCH_SET) PMC_FUSE_CTRL,
      Mdelay 1]"
  by (simp add: tegra_pmc_fuse_control_ps18_latch_set_def Let_def split_beta)

lemma latch_clear_trace:
  "trace (tegra_pmc_fuse_control_ps18_latch_clear s) = trace s @
     [Readl PMC_FUSE_CTRL (regs s PMC_FUSE_CTRL),
      Writel (regs s PMC_FUSE_CTRL AND NOT PMC_FUSE_CTRL_PS18_LATCH_SET) PMC_FUSE_CTRL,
      Mdelay 1,
      Writel ((regs s PMC_FUSE_CTRL AND NOT PMC_FUSE_CTRL_PS18_LATCH_SET) OR
              PMC_FUSE_CTRL_PS18_LATCH_CLEAR) PMC_FUSE_CTRL,
      Mdelay 1]"
  by (simp add: tegra_pmc_fuse_control_ps18_latch_clear_def Let_def split_beta)

lemma latch_disjoint:
  "PMC_FUSE_CTRL_PS18_LATCH_SET AND PMC_FUSE_CTRL_PS18_LATCH_CLEAR = 0"
  "PMC_FUSE_CTRL_PS18_LATCH_CLEAR AND PMC_FUSE_CTRL_PS18_LATCH_SET = 0"
  "PMC_FUSE_CTRL_PS18_LATCH_SET \<noteq> 0" "PMC_FUSE_CTRL_PS18_LATCH_CLEAR \<noteq> 0"
  by (simp_all add: pmc_consts)

lemma enable_mirroring_regs:
  "regs (tegra_pmc_fuse_enable_mirroring s) =
     (if regs s PMC_FUSE_CTRL AND PMC_FUSE_CTRL_ENABLE_REDIRECTION = 0
      then (regs s)(PMC_FUSE_CTRL := PMC_FUSE_CTRL_ENABLE_REDIRECTION) else regs s)"
  by (simp add: tegra_pmc_fuse_enable_mirroring_def split_beta)

lemma enable_mirroring_trace:
  "trace (tegra_pmc_fuse_enable_mirroring s) = trace s @
     Readl PMC_FUSE_CTRL (regs s PMC_FUSE_CTRL) #
     (if regs s PMC_FUSE_CTRL AND PMC_FUSE_CTRL_ENABLE_REDIRECTION = 0
      then [Writel PMC_FUSE_CTRL_ENABLE_REDIRECTION PMC_FUSE_CTRL] else [])"
  by (simp add: tegra_pmc_fuse_enable_mirroring_def split_beta)

lemma disable_mirroring_regs:
  "regs (tegra_pmc_fuse_disable_mirroring s) =
     (if regs s PMC_FUSE_CTRL AND PMC_FUSE_CTRL_ENABLE_REDIRECTION \<noteq> 0
      then (regs s)(PMC_FUSE_CTRL := PMC_FUSE_CTRL_DISABLE_REDIRECTION) else regs s)"
  by (simp add: tegra_pmc_fuse_disable_mirroring_def split_beta)

lemma disable_mirroring_trace:
  "trace (tegra_pmc_fuse_disable_mirroring s) = trace s @
     Readl PMC_FUSE_CTRL (regs s PMC_FUSE_CTRL) #
     (if regs s PMC_FUSE_CTRL AND PMC_FUSE_CTRL_ENABLE_REDIRECTION \<noteq> 0
      then [Writel PMC_FUSE_CTRL_DISABLE_REDIRECTION PMC_FUSE_CTRL] else [])"
  by (simp add: tegra_pmc_fuse_disable_mirroring_def split_beta)

lemma redirection_bits:
  "PMC_FUSE_CTRL_ENABLE_REDIRECTION AND PMC_FUSE_CTRL_ENABLE_REDIRECTION \<noteq> 0"
  "PMC_FUSE_CTRL_DISABLE_REDIRECTION AND PMC_FUSE_CTRL_ENABLE_REDIRECTION = 0"
  "PMC_FUSE_CTRL_ENABLE_REDIRECTION \<noteq> 0"
  by (simp_all add: pmc_consts)

lemma brick_enable_regs:
  "regs (tegra186_pmc_enable_nvcsi_brick_dpd s) =
     (regs s)(0x74 := regs s 0x74 OR 0x3, 0x7C := regs s 0x7C OR 0x7800)"
  by (simp add: tegra186_pmc_enable_nvcsi_brick_dpd_def split_beta Let_def ucast_or_low
       brick_masks or_1_2)
     (simp add: pmc_consts)

lemma brick_disable_regs:
  "regs (tegra186_pmc_disable_nvcsi_brick_dpd s) =
     (regs s)(0x74 := regs s 0x74 AND NOT 0x3, 0x7C := regs s 0x7C AND NOT 0x7800)"
  by (simp add: tegra186_pmc_disable_nvcsi_brick_dpd_def split_beta Let_def ucast_and_not_low
       brick_masks del: bit.de_Morgan_disj)
     (simp add: pmc_consts)

lemma brick_enable_trace:
  "trace (tegra186_pmc_enable_nvcsi_brick_dpd s) = trace s @
     [Readl 0x74 (regs s 0x74), Writel (regs s 0x74 OR 0x3) 0x74,
      Readl 0x7C (regs s 0x7C), Writel (regs s 0x7C OR 0x7800) 0x7C]"
  by (simp add: tegra186_pmc_enable_nvcsi_brick_dpd_def split_beta Let_def ucast_or_low
       brick_masks or_1_2)
     (simp add: pmc_consts)

lemma brick_disable_trace:
  "trace (tegra186_pmc_disable_nvcsi_brick_dpd s) = trace s @
     [Readl 0x74 (regs s 0x74), Writel (regs s 0x74 AND NOT 0x3) 0x74,
      Readl 0x7C (regs s 0x7C), Writel (regs s 0x7C AND NOT 0x7800) 0x7C]"
  by (simp add: tegra186_pmc_disable_nvcsi_brick_dpd_def split_beta Let_def ucast_and_not_low
       brick_masks del: bit.de_Morgan_disj)
     (simp add: pmc_consts)

lemma iopower_enable_reg:
  "regs (tegra_pmc_iopower_enable reg bit_mask s) reg = regs s reg AND NOT bit_mask"
  by (simp add: tegra_pmc_iopower_enable_def regs_register_update rmw_val32 ucast_up_down)

lemma iopower_disable_reg:
  "regs (tegra_pmc_iopower_disable reg bit_mask s) reg = (regs s reg AND NOT bit_mask) OR bit_mask"
  by (simp add: tegra_pmc_iopower_disable_def regs_register_update rmw_val32 ucast_up_down)

section \<open>Schedules of two concurrent updates\<close>

lemma inv_step:
  assumes dis: "m1 AND m2 = 0" and inv: "interleave_inv offset m1 v1 m2 v2 r0 c"
  shows "interleave_inv offset m1 v1 m2 v2 r0 (sys_step t c)"
proof -
  obtain a b sh where c: "c = (a, b, sh)" by (cases c)
  from inv have args: "arg_mask a = m1" "arg_val a = v1" "arg_mask b = m2" "arg_val b = v2"
    by (simp_all add: c interleave_inv_def)
  have comm: "rmw_val (rmw_val r (arg_mask b) (arg_val b)) (arg_mask a) (arg_val a) =
              rmw_val (rmw_val r (arg_mask a) (arg_val a)) (arg_mask b) (arg_val b)" for r
    unfolding args by (rule rmw_val_commute [OF dis])
  show ?thesis
  proof (cases t)
    case CPU_A
    show ?thesis using inv unfolding c CPU_A
      by (cases "pc a")
         (auto simp: interleave_inv_def call_step_def local_ok_def written_def in_cs_def comm
                     rmw_val_def [symmetric])
  next
    case CPU_B
    show ?thesis using inv unfolding c CPU_B
      by (cases "pc b")
         (auto simp: interleave_inv_def call_step_def local_ok_def written_def in_cs_def comm
                     rmw_val_def [symmetric])
  qed
qed

lemma inv_run:
  assumes dis: "m1 AND m2 = 0"
  shows "interleave_inv offset m1 v1 m2 v2 r0 c \<Longrightarrow>
         interleave_inv offset m1 v1 m2 v2 r0 (run sched c)"
  unfolding run_def
  by (induction sched arbitrary: c) (simp_all add: inv_step [OF dis])

lemma inv_init:
  "interleave_inv offset m1 v1 m2 v2 (r offset)
     (enter offset m1 v1 j1, enter offset m2 v2 j2, \<lparr>block = r, access_lock = False\<rparr>)"
  by (simp add: interleave_inv_def enter_def local_ok_def written_def in_cs_def)

lemma inv_final:
  assumes "interleave_inv offset m1 v1 m2 v2 r0 c" and "both_returned c"
  shows "final_block c offset = rmw_val (rmw_val r0 m1 v1) m2 v2"
  using assms
  by (cases c) (simp add: interleave_inv_def both_returned_def final_block_def written_def)

text \<open>
  Run alone, a call needs five steps, and leaves the register block as
  \<open>tegra186_pmc_register_update\<close> does; so the two sequential orders are two
  of the schedules, and both calls return in them.
\<close>

lemma call_alone:
  "run [CPU_A, CPU_A, CPU_A, CPU_A, CPU_A]
     (enter offset msk val j, b, \<lparr>block = regs s, access_lock = False\<rparr>) =
   (\<lparr>pc = Returned, arg_offset = offset, arg_mask = msk, arg_val = val,
      pmc_reg = rmw_val (regs s offset) msk val\<rparr>, b,
    \<lparr>block = regs (tegra186_pmc_register_update offset msk val s), access_lock = False\<rparr>)"
  by (simp add: run_def call_step_def enter_def regs_register_update rmw_val_def)

lemma sequential_orders_return:
  "both_returned (run ([CPU_A, CPU_A, CPU_A, CPU_A, CPU_A] @ [CPU_B, CPU_B, CPU_B, CPU_B, CPU_B])
     (enter offset m1 v1 j1, enter offset m2 v2 j2, \<lparr>block = r, access_lock = False\<rparr>))"
  "both_returned (run ([CPU_B, CPU_B, CPU_B, CPU_B, CPU_B] @ [CPU_A, CPU_A, CPU_A, CPU_A, CPU_A])
     (enter offset m1 v1 j1, enter offset m2 v2 j2, \<lparr>block = r, access_lock = False\<rparr>))"
  by (simp_all add: run_def call_step_def enter_def both_returned_def)

text \<open>
  From every configuration the two calls can reach, both return once each
  context has been given enough steps: nobody waits for the lock forever.
\<close>

lemma both_calls_can_return:
  assumes "interleave_inv offset m1 v1 m2 v2 r0 c"
  shows "both_returned
           (run ([CPU_A, CPU_A, CPU_A, CPU_A, CPU_A] @ [CPU_B, CPU_B, CPU_B, CPU_B, CPU_B] @
                 [CPU_A, CPU_A, CPU_A, CPU_A, CPU_A]) c)"
proof -
  obtain a b sh where c: "c = (a, b, sh)" by (cases c)
  show ?thesis using assms unfolding c
    by (cases "pc a"; cases "pc b")
       (simp_all add: interleave_inv_def run_def call_step_def both_returned_def in_cs_def)
qed

text \<open>Run alone, the steps of the brick DPD enable do what the function does.\<close>

lemma brick_enable_alone:
  "race_block (race_run [CPU_B, CPU_B, CPU_B, CPU_B]
     (a, \<lparr>brick_pc = Brick_read_ab, brick_val = j\<rparr>, \<lparr>block = regs s, access_lock = l\<rparr>))
   = regs (tegra186_pmc_enable_nvcsi_brick_dpd s)"
  by (simp add: race_run_def race_block_def brick_enable_step_def
        tegra186_pmc_enable_nvcsi_brick_dpd_def split_beta Let_def)

section \<open>The claims\<close>

text \<open>
  Claim C1, as stated, at a concrete input. The mask and the value of
  \<open>tegra186_pmc_register_update\<close> are \<open>unsigned long\<close>, the register is 32 bits
  wide. With mask and value \<open>0x100000000\<close> (bit 32) on a register block that
  reads 0, the register still reads 0 after the call, so
  \<open>get(offset) & mask\<close> is 0 while \<open>value & mask\<close> is \<open>0x100000000\<close>.
\<close>

theorem C1_update_wide_mask_counterexample:
  "fst (tegra_pmc_register_get 0x100
         (tegra186_pmc_register_update 0x100 0x100000000 0x100000000 zeroed))
     AND 0x100000000 \<noteq> (0x100000000 :: ulong) AND 0x100000000"
  by (simp add: regs_register_update rmw_val_def)

text \<open>
  Claim C1, amended. For every offset, mask, value and prior state, after
  \<open>tegra186_pmc_register_update(offset, mask, value)\<close> the value read by
  \<open>tegra_pmc_register_get(offset)\<close> satisfies
  \<open>get(offset) & mask == (value & mask) & 0xFFFFFFFF\<close>: the register takes the
  low 32 bits of the masked value. And \<open>get(offset) & ~mask\<close> is what it was
  before the call.
\<close>

theorem C1_register_update_masked:
  "fst (tegra_pmc_register_get offset (tegra186_pmc_register_update offset msk val s)) AND msk
     = (val AND msk) AND 0xFFFFFFFF
   \<and> fst (tegra_pmc_register_get offset (tegra186_pmc_register_update offset msk val s))
       AND NOT msk
     = fst (tegra_pmc_register_get offset s) AND NOT msk"
  by (simp add: regs_register_update rmw_val_inside_wide rmw_val_outside_wide)

text \<open>
  Claim C2 says that every multi-step sequence on the register block runs
  under \<open>tegra186_pmc_access_lock\<close>. Evaluated on a register block that reads
  0: the fuse latch set and clear sequences and the NVCSI brick DPD enable and
  disable write registers while the lock is not held (they never take it),
  whereas \<open>tegra_pmc_nvcsi_ab_brick_update\<close>, which updates the same register
  \<open>PMC_IO_DPD_REQ\<close>, and \<open>tegra186_pmc_io_dpd_enable\<close> write only while
  holding it. And the two do interleave: when the brick DPD enable reads
  \<open>PMC_IO_DPD_REQ\<close> while \<open>tegra_pmc_nvcsi_ab_brick_update(0x4, 0x4)\<close> holds
  the lock between its read and its write, both return and the register reads
  \<open>0x3\<close>; bit 2 of the locked update is lost, where either order of the two
  calls one after the other gives \<open>0x7\<close>.
\<close>

theorem C2_fuse_latch_and_brick_dpd_write_unlocked:
  "\<not> writes_guarded False (events_of zeroed (tegra_pmc_fuse_control_ps18_latch_set zeroed))
   \<and> \<not> writes_guarded False (events_of zeroed (tegra_pmc_fuse_control_ps18_latch_clear zeroed))
   \<and> \<not> writes_guarded False (events_of zeroed (tegra186_pmc_enable_nvcsi_brick_dpd zeroed))
   \<and> \<not> writes_guarded False (events_of zeroed (tegra186_pmc_disable_nvcsi_brick_dpd zeroed))
   \<and> writes_guarded False (events_of zeroed (tegra_pmc_nvcsi_ab_brick_update 0x3 0x3 zeroed))
   \<and> writes_guarded False (events_of zeroed (snd (tegra186_pmc_io_dpd_enable 0 0 zeroed)))
   \<and> race_returned (race_run [CPU_A, CPU_A, CPU_A, CPU_B, CPU_A, CPU_A, CPU_B, CPU_B, CPU_B]
        (enter PMC_IO_DPD_REQ 0x4 0x4 0, \<lparr>brick_pc = Brick_read_ab, brick_val = 0\<rparr>,
         \<lparr>block = regs zeroed, access_lock = False\<rparr>))
   \<and> race_block (race_run [CPU_A, CPU_A, CPU_A, CPU_B, CPU_A, CPU_A, CPU_B, CPU_B, CPU_B]
        (enter PMC_IO_DPD_REQ 0x4 0x4 0, \<lparr>brick_pc = Brick_read_ab, brick_val = 0\<rparr>,
         \<lparr>block = regs zeroed, access_lock = False\<rparr>)) PMC_IO_DPD_REQ = 0x3
   \<and> regs (tegra186_pmc_enable_nvcsi_brick_dpd
             (tegra_pmc_nvcsi_ab_brick_update 0x4 0x4 zeroed)) PMC_IO_DPD_REQ = 0x7
   \<and> regs (tegra_pmc_nvcsi_ab_brick_update 0x4 0x4
             (tegra186_pmc_enable_nvcsi_brick_dpd zeroed)) PMC_IO_DPD_REQ = 0x7"
proof -
  have traces:
    "\<not> writes_guarded False (events_of zeroed (tegra_pmc_fuse_control_ps18_latch_set zeroed))"
    "\<not> writes_guarded False (events_of zeroed (tegra_pmc_fuse_control_ps18_latch_clear zeroed))"
    "\<not> writes_guarded False (events_of zeroed (tegra186_pmc_enable_nvcsi_brick_dpd zeroed))"
    "\<not> writes_guarded False (events_of zeroed (tegra186_pmc_disable_nvcsi_brick_dpd zeroed))"
    "writes_guarded False (events_of zeroed (tegra_pmc_nvcsi_ab_brick_update 0x3 0x3 zeroed))"
    "writes_guarded False (events_of zeroed (snd (tegra186_pmc_io_dpd_enable 0 0 zeroed)))"
    by (simp_all add: events_of_def latch_set_trace latch_clear_trace brick_enable_trace
          brick_disable_trace trace_nvcsi_ab_brick_update dpd_enable_trace)
  have race:
    "race_run [CPU_A, CPU_A, CPU_A, CPU_B, CPU_A, CPU_A, CPU_B, CPU_B, CPU_B]
        (enter PMC_IO_DPD_REQ 0x4 0x4 0, \<lparr>brick_pc = Brick_read_ab, brick_val = 0\<rparr>,
         \<lparr>block = regs zeroed, access_lock = False\<rparr>)
     = (\<lparr>pc = Returned, arg_offset = PMC_IO_DPD_REQ, arg_mask = 0x4, arg_val = 0x4,
          pmc_reg = 0x4\<rparr>,
        \<lparr>brick_pc = Brick_returned, brick_val = 0x7800\<rparr>,
        \<lparr>block = (regs zeroed)(PMC_IO_DPD_REQ := 0x3, PMC_IO_DPD2_REQ := 0x7800),
          access_lock = False\<rparr>)"
    by (simp add: race_run_def call_step_def brick_enable_step_def enter_def pmc_consts)
  have lost:
    "race_returned (race_run [CPU_A, CPU_A, CPU_A, CPU_B, CPU_A, CPU_A, CPU_B, CPU_B, CPU_B]
        (enter PMC_IO_DPD_REQ 0x4 0x4 0, \<lparr>brick_pc = Brick_read_ab, brick_val = 0\<rparr>,
         \<lparr>block = regs zeroed, access_lock = False\<rparr>))"
    "race_block (race_run [CPU_A, CPU_A, CPU_A, CPU_B, CPU_A, CPU_A, CPU_B, CPU_B, CPU_B]
        (enter PMC_IO_DPD_REQ 0x4 0x4 0, \<lparr>brick_pc = Brick_read_ab, brick_val = 0\<rparr>,
         \<lparr>block = regs zeroed, access_lock = False\<rparr>)) PMC_IO_DPD_REQ = 0x3"
    unfolding race by (simp_all add: race_returned_def race_block_def pmc_consts)
  have seq:
    "regs (tegra186_pmc_enable_nvcsi_brick_dpd
             (tegra_pmc_nvcsi_ab_brick_update 0x4 0x4 zeroed)) PMC_IO_DPD_REQ = 0x7"
    "regs (tegra_pmc_nvcsi_ab_brick_update 0x4 0x4
             (tegra186_pmc_enable_nvcsi_brick_dpd zeroed)) PMC_IO_DPD_REQ = 0x7"
    by (simp_all add: brick_enable_regs tegra_pmc_nvcsi_ab_brick_update_def
          regs_register_update_raw rmw_val_def pmc_consts)
  from traces lost seq show ?thesis by blast
qed

text \<open>
  Claim C3. For every group index, bit position and state,
  \<open>tegra186_pmc_io_dpd_enable\<close> and \<open>tegra186_pmc_io_dpd_disable\<close> return 0.
  The \<open>pr_info\<close> message is among the events of the call exactly when the
  status register read after the wait does not show the requested state (bit
  clear after enable, bit set after disable); the return value is 0 in both
  cases. The bit tested is \<open>1 << bit_pos\<close>, which is bit \<open>bit_pos\<close> for 0 to 31
  and bit \<open>bit_pos mod 32\<close> as the shift is computed outside that range.
\<close>

theorem C3_dpd_enable_disable_return_0:
  "fst (tegra186_pmc_io_dpd_enable reg bit_pos s) = 0
   \<and> fst (tegra186_pmc_io_dpd_disable reg bit_pos s) = 0
   \<and> (Pr_info_enable_failed (reg + 1) (regs s (PMC_IO_DPD_STATUS + reg * 8))
         \<in> set (events_of s (snd (tegra186_pmc_io_dpd_enable reg bit_pos s))))
       = (regs s (PMC_IO_DPD_STATUS + reg * 8) AND push_bit (unat bit_pos mod 32) 1 = 0)
   \<and> (Pr_info_disable_failed (reg + 1) (regs s (PMC_IO_DPD_STATUS + reg * 8))
         \<in> set (events_of s (snd (tegra186_pmc_io_dpd_disable reg bit_pos s))))
       = (regs s (PMC_IO_DPD_STATUS + reg * 8) AND push_bit (unat bit_pos mod 32) 1 \<noteq> 0)"
proof -
  have r: "fst (tegra186_pmc_io_dpd_enable reg bit_pos s) = 0"
      "fst (tegra186_pmc_io_dpd_disable reg bit_pos s) = 0"
    by (simp_all add: tegra186_pmc_io_dpd_enable_def tegra186_pmc_io_dpd_disable_def
          Let_def split_beta)
  show ?thesis
    by (simp add: r events_of_def dpd_enable_trace dpd_disable_trace PMC_IO_DPD_STATUS_def
          shl1_def)
qed

text \<open>
  Claim C4. For every prior value of \<open>PMC_FUSE_CTRL\<close>, after
  \<open>tegra_pmc_fuse_control_ps18_latch_set\<close> the register has the
  \<open>PS18_LATCH_SET\<close> bit set and the \<open>PS18_LATCH_CLEAR\<close> bit unset; after
  \<open>tegra_pmc_fuse_control_ps18_latch_clear\<close> it has \<open>CLEAR\<close> set and \<open>SET\<close>
  unset; and after the two in sequence, in either order, exactly the latch bit
  of the second call is set, so never both.
\<close>

theorem C4_latch_set_clear_bits:
  "regs (tegra_pmc_fuse_control_ps18_latch_set s) PMC_FUSE_CTRL
       AND PMC_FUSE_CTRL_PS18_LATCH_SET = PMC_FUSE_CTRL_PS18_LATCH_SET
   \<and> regs (tegra_pmc_fuse_control_ps18_latch_set s) PMC_FUSE_CTRL
       AND PMC_FUSE_CTRL_PS18_LATCH_CLEAR = 0
   \<and> regs (tegra_pmc_fuse_control_ps18_latch_clear s) PMC_FUSE_CTRL
       AND PMC_FUSE_CTRL_PS18_LATCH_CLEAR = PMC_FUSE_CTRL_PS18_LATCH_CLEAR
   \<and> regs (tegra_pmc_fuse_control_ps18_latch_clear s) PMC_FUSE_CTRL
       AND PMC_FUSE_CTRL_PS18_LATCH_SET = 0
   \<and> regs (tegra_pmc_fuse_control_ps18_latch_clear (tegra_pmc_fuse_control_ps18_latch_set s))
         PMC_FUSE_CTRL AND (PMC_FUSE_CTRL_PS18_LATCH_SET OR PMC_FUSE_CTRL_PS18_LATCH_CLEAR)
       = PMC_FUSE_CTRL_PS18_LATCH_CLEAR
   \<and> regs (tegra_pmc_fuse_control_ps18_latch_set (tegra_pmc_fuse_control_ps18_latch_clear s))
         PMC_FUSE_CTRL AND (PMC_FUSE_CTRL_PS18_LATCH_SET OR PMC_FUSE_CTRL_PS18_LATCH_CLEAR)
       = PMC_FUSE_CTRL_PS18_LATCH_SET"
  by (simp add: latch_set_regs latch_clear_regs clear_then_set_has clear_then_set_hasnt
        latch_disjoint bit.conj_disj_distrib)

text \<open>
  Claim C5. For every group \<open>g\<close> from 0 to 7 and bit \<open>b\<close> from 0 to 31, the
  events of \<open>tegra186_pmc_io_dpd_enable\<close> are, in order: taking the lock, the
  write of \<open>0x10\<close> to offset \<open>0xBC\<close>, the write of \<open>1 << b\<close> to offset
  \<open>0x74 + g * 8\<close> with no read before it, the delay of 7 microseconds, the read
  of offset \<open>0x78 + g * 8\<close>, the message if the bit is clear there, and
  releasing the lock. The events of \<open>tegra186_pmc_io_dpd_disable\<close> are the same
  without the write of the timer value: its only write is the one to the
  request register, and none of its writes goes to offset \<open>0xBC\<close>.
\<close>

theorem C5_dpd_enable_disable_sequences:
  assumes "unat g < 8" and "unat b < 32"
  shows "events_of s (snd (tegra186_pmc_io_dpd_enable g b s)) =
     [Spin_lock, Writel 0x10 0xBC, Writel (push_bit (unat b) 1) (0x74 + g * 8), Udelay 7,
      Readl (0x78 + g * 8) (regs s (0x78 + g * 8))] @
     (if regs s (0x78 + g * 8) AND push_bit (unat b) 1 = 0
      then [Pr_info_enable_failed (g + 1) (regs s (0x78 + g * 8))] else []) @
     [Spin_unlock]
   \<and> events_of s (snd (tegra186_pmc_io_dpd_disable g b s)) =
     [Spin_lock, Writel (push_bit (unat b) 1) (0x74 + g * 8), Udelay 7,
      Readl (0x78 + g * 8) (regs s (0x78 + g * 8))] @
     (if regs s (0x78 + g * 8) AND push_bit (unat b) 1 \<noteq> 0
      then [Pr_info_disable_failed (g + 1) (regs s (0x78 + g * 8))] else []) @
     [Spin_unlock]
   \<and> writes_of (events_of s (snd (tegra186_pmc_io_dpd_enable g b s))) =
     [(0x10, 0xBC), (push_bit (unat b) 1, 0x74 + g * 8)]
   \<and> writes_of (events_of s (snd (tegra186_pmc_io_dpd_disable g b s))) =
     [(push_bit (unat b) 1, 0x74 + g * 8)]
   \<and> filter (\<lambda>w. snd w = 0xBC) (writes_of (events_of s (snd (tegra186_pmc_io_dpd_enable g b s))))
       = [(0x10, 0xBC)]
   \<and> filter (\<lambda>w. snd w = 0xBC) (writes_of (events_of s (snd (tegra186_pmc_io_dpd_disable g b s))))
       = []"
proof -
  have sh: "shl1 b = push_bit (unat b) 1"
    by (rule shl1_in_range [OF assms(2)])
  have ne: "(0x74 + g * 8 :: u32) \<noteq> 0xBC"
    by (rule req_neq_tim [OF assms(1)])
  have en: "events_of s (snd (tegra186_pmc_io_dpd_enable g b s)) =
     [Spin_lock, Writel 0x10 0xBC, Writel (push_bit (unat b) 1) (0x74 + g * 8), Udelay 7,
      Readl (0x78 + g * 8) (regs s (0x78 + g * 8))] @
     (if regs s (0x78 + g * 8) AND push_bit (unat b) 1 = 0
      then [Pr_info_enable_failed (g + 1) (regs s (0x78 + g * 8))] else []) @
     [Spin_unlock]"
    unfolding events_of_def dpd_enable_trace sh by simp
  have di: "events_of s (snd (tegra186_pmc_io_dpd_disable g b s)) =
     [Spin_lock, Writel (push_bit (unat b) 1) (0x74 + g * 8), Udelay 7,
      Readl (0x78 + g * 8) (regs s (0x78 + g * 8))] @
     (if regs s (0x78 + g * 8) AND push_bit (unat b) 1 \<noteq> 0
      then [Pr_info_disable_failed (g + 1) (regs s (0x78 + g * 8))] else []) @
     [Spin_unlock]"
    unfolding events_of_def dpd_disable_trace sh by simp
  have we: "writes_of (events_of s (snd (tegra186_pmc_io_dpd_enable g b s))) =
     [(0x10, 0xBC), (push_bit (unat b) 1, 0x74 + g * 8)]"
    unfolding en by simp
  have wd: "writes_of (events_of s (snd (tegra186_pmc_io_dpd_disable g b s))) =
     [(push_bit (unat b) 1, 0x74 + g * 8)]"
    unfolding di by simp
  have fe: "filter (\<lambda>w. snd w = 0xBC)
              (writes_of (events_of s (snd (tegra186_pmc_io_dpd_enable g b s)))) = [(0x10, 0xBC)]"
    unfolding we using ne by simp
  have fd: "filter (\<lambda>w. snd w = 0xBC)
              (writes_of (events_of s (snd (tegra186_pmc_io_dpd_disable g b s)))) = []"
    unfolding wd using ne by simp
  from en di we wd fe fd show ?thesis by blast
qed

text \<open>
  Claim C5 at group 1 and bit 11 (the CSIC pad of \<open>PMC_IO_DPD2_REQ\<close>) on a
  register block that reads 0: the request goes to \<open>0x7C\<close> with value \<open>0x800\<close>,
  the status is read at \<open>0x80\<close>; enable finds the bit clear and logs, disable
  does not.
\<close>

theorem C5_dpd_enable_disable_sequences_witness:
  "unat (1 :: c_int) < 8 \<and> unat (11 :: c_int) < 32
   \<and> events_of zeroed (snd (tegra186_pmc_io_dpd_enable 1 11 zeroed)) =
       [Spin_lock, Writel 0x10 0xBC, Writel 0x800 0x7C, Udelay 7, Readl 0x80 0,
        Pr_info_enable_failed 2 0, Spin_unlock]
   \<and> events_of zeroed (snd (tegra186_pmc_io_dpd_disable 1 11 zeroed)) =
       [Spin_lock, Writel 0x800 0x7C, Udelay 7, Readl 0x80 0, Spin_unlock]"
proof -
  have h1: "unat (1 :: c_int) < 8" by simp
  have h2: "unat (11 :: c_int) < 32" by simp
  from C5_dpd_enable_disable_sequences [OF h1 h2, of zeroed] h1 h2
  show ?thesis by simp
qed

text \<open>
  Claim C6. Two calls of \<open>tegra186_pmc_register_update\<close> on the same offset
  with disjoint masks run in two contexts, their steps interleaved by any
  schedule. Whenever both calls have returned, the register holds what either
  sequential order of the two calls leaves there, the two orders agree, each
  mask region holds its requested value, and the bits outside both masks are
  those from before.
\<close>

theorem C6_disjoint_updates_not_lost:
  assumes "m1 AND m2 = 0"
    and "both_returned (run sched (enter offset m1 v1 j1, enter offset m2 v2 j2,
                                   \<lparr>block = regs s, access_lock = False\<rparr>))"
  shows "final_block (run sched (enter offset m1 v1 j1, enter offset m2 v2 j2,
                                 \<lparr>block = regs s, access_lock = False\<rparr>)) offset
           = regs (tegra186_pmc_register_update offset m2 v2
                    (tegra186_pmc_register_update offset m1 v1 s)) offset
       \<and> regs (tegra186_pmc_register_update offset m1 v1
                (tegra186_pmc_register_update offset m2 v2 s)) offset
           = regs (tegra186_pmc_register_update offset m2 v2
                    (tegra186_pmc_register_update offset m1 v1 s)) offset
       \<and> regs (tegra186_pmc_register_update offset m2 v2
                (tegra186_pmc_register_update offset m1 v1 s)) offset AND ucast m1
           = ucast (v1 AND m1)
       \<and> regs (tegra186_pmc_register_update offset m2 v2
                (tegra186_pmc_register_update offset m1 v1 s)) offset AND ucast m2
           = ucast (v2 AND m2)
       \<and> regs (tegra186_pmc_register_update offset m2 v2
                (tegra186_pmc_register_update offset m1 v1 s)) offset AND NOT (ucast (m1 OR m2))
           = regs s offset AND NOT (ucast (m1 OR m2))"
proof -
  let ?c = "run sched (enter offset m1 v1 j1, enter offset m2 v2 j2,
                       \<lparr>block = regs s, access_lock = False\<rparr>)"
  let ?r = "regs s offset"
  let ?a = "(ucast m1 :: u32)" and ?b = "(ucast m2 :: u32)"
  let ?x = "(ucast v1 :: u32)" and ?y = "(ucast v2 :: u32)"
  let ?r12 = "(((?r AND NOT ?a) OR (?x AND ?a)) AND NOT ?b) OR (?y AND ?b)"
  have d: "?a AND ?b = 0"
    by (simp add: ucast_and_down [symmetric] assms(1))
  have e12: "regs (tegra186_pmc_register_update offset m2 v2
                (tegra186_pmc_register_update offset m1 v1 s)) offset
             = rmw_val (rmw_val ?r m1 v1) m2 v2"
    by (simp add: regs_register_update)
  have e21: "regs (tegra186_pmc_register_update offset m1 v1
                (tegra186_pmc_register_update offset m2 v2 s)) offset
             = rmw_val (rmw_val ?r m2 v2) m1 v1"
    by (simp add: regs_register_update)
  have w: "rmw_val (rmw_val ?r m1 v1) m2 v2 = ?r12"
    by (simp only: rmw_val32)
  have "interleave_inv offset m1 v1 m2 v2 ?r ?c"
    by (rule inv_run [OF assms(1) inv_init])
  then have 0: "final_block ?c offset = rmw_val (rmw_val ?r m1 v1) m2 v2"
    using assms(2) by (rule inv_final)
  have 1: "rmw_val (rmw_val ?r m2 v2) m1 v1 = rmw_val (rmw_val ?r m1 v1) m2 v2"
    by (rule rmw_val_commute [OF assms(1)])
  have 2: "?r12 AND ?a = ucast (v1 AND m1)"
    by (simp only: rmw_first_kept [OF d] ucast_and_down)
  have 3: "?r12 AND ?b = ucast (v2 AND m2)"
    by (simp only: rmw_inside ucast_and_down)
  have 4: "?r12 AND NOT (ucast (m1 OR m2)) = ?r AND NOT (ucast (m1 OR m2))"
    by (simp only: rmw_rest_kept ucast_or_down)
  show ?thesis
    unfolding e12 e21 using 0 1 2 3 4 unfolding w by blast
qed

text \<open>
  Claim C6 at a schedule in which the second context spins on the lock while
  the first is between its read and its write: masks \<open>0x0F\<close> and \<open>0xF0\<close>,
  values \<open>0x05\<close> and \<open>0xA0\<close>, register \<open>0x74\<close> reading 0 before; it reads
  \<open>0xA5\<close> after.
\<close>

theorem C6_disjoint_updates_not_lost_witness:
  "(0x0F :: ulong) AND 0xF0 = 0
   \<and> both_returned (run [CPU_A, CPU_B, CPU_A, CPU_B, CPU_A, CPU_A, CPU_B, CPU_A,
                         CPU_B, CPU_B, CPU_B, CPU_B, CPU_B]
        (enter 0x74 0x0F 0x05 0, enter 0x74 0xF0 0xA0 0,
         \<lparr>block = regs zeroed, access_lock = False\<rparr>))
   \<and> final_block (run [CPU_A, CPU_B, CPU_A, CPU_B, CPU_A, CPU_A, CPU_B, CPU_A,
                       CPU_B, CPU_B, CPU_B, CPU_B, CPU_B]
        (enter 0x74 0x0F 0x05 0, enter 0x74 0xF0 0xA0 0,
         \<lparr>block = regs zeroed, access_lock = False\<rparr>)) 0x74
      = regs (tegra186_pmc_register_update 0x74 0xF0 0xA0
               (tegra186_pmc_register_update 0x74 0x0F 0x05 zeroed)) 0x74
   \<and> regs (tegra186_pmc_register_update 0x74 0xF0 0xA0
               (tegra186_pmc_register_update 0x74 0x0F 0x05 zeroed)) 0x74 = 0xA5"
proof -
  have h1: "(0x0F :: ulong) AND 0xF0 = 0" by simp
  have h2: "both_returned (run [CPU_A, CPU_B, CPU_A, CPU_B, CPU_A, CPU_A, CPU_B, CPU_A,
                         CPU_B, CPU_B, CPU_B, CPU_B, CPU_B]
        (enter 0x74 0x0F 0x05 0, enter 0x74 0xF0 0xA0 0,
         \<lparr>block = regs zeroed, access_lock = False\<rparr>))"
    by (simp add: run_def call_step_def enter_def both_returned_def)
  have v: "regs (tegra186_pmc_register_update 0x74 0xF0 0xA0
               (tegra186_pmc_register_update 0x74 0x0F 0x05 zeroed)) 0x74 = 0xA5"
    by (simp add: regs_register_update rmw_val_def)
  from C6_disjoint_updates_not_lost [OF h1 h2] h1 h2 v show ?thesis by blast
qed

text \<open>
  Claim C7. For every prior state, two calls of
  \<open>tegra_pmc_fuse_enable_mirroring\<close> in a row write at most once, and the
  second call does nothing but read \<open>PMC_FUSE_CTRL\<close>; the same for two calls of
  \<open>tegra_pmc_fuse_disable_mirroring\<close>.
\<close>

theorem C7_mirroring_twice_at_most_one_write:
  "length (writes_of (events_of s
     (tegra_pmc_fuse_enable_mirroring (tegra_pmc_fuse_enable_mirroring s)))) \<le> 1
   \<and> events_of (tegra_pmc_fuse_enable_mirroring s)
        (tegra_pmc_fuse_enable_mirroring (tegra_pmc_fuse_enable_mirroring s))
      = [Readl PMC_FUSE_CTRL (regs (tegra_pmc_fuse_enable_mirroring s) PMC_FUSE_CTRL)]
   \<and> length (writes_of (events_of s
     (tegra_pmc_fuse_disable_mirroring (tegra_pmc_fuse_disable_mirroring s)))) \<le> 1
   \<and> events_of (tegra_pmc_fuse_disable_mirroring s)
        (tegra_pmc_fuse_disable_mirroring (tegra_pmc_fuse_disable_mirroring s))
      = [Readl PMC_FUSE_CTRL (regs (tegra_pmc_fuse_disable_mirroring s) PMC_FUSE_CTRL)]"
  by (simp add: events_of_def enable_mirroring_trace enable_mirroring_regs
        disable_mirroring_trace disable_mirroring_regs redirection_bits)

text \<open>
  Claim C8. For every prior state, \<open>tegra186_pmc_enable_nvcsi_brick_dpd\<close> sets
  bits 0 and 1 of the register at \<open>0x74\<close> and bits 11 to 14 of the register at
  \<open>0x7C\<close>, and \<open>tegra186_pmc_disable_nvcsi_brick_dpd\<close> clears the same bits;
  every other bit of the two registers, and every other register, is
  unchanged.
\<close>

theorem C8_brick_dpd_sets_and_clears_exact_bits:
  "regs (tegra186_pmc_enable_nvcsi_brick_dpd s) =
     (regs s)(0x74 := regs s 0x74 OR 0x3, 0x7C := regs s 0x7C OR 0x7800)
   \<and> regs (tegra186_pmc_disable_nvcsi_brick_dpd s) =
     (regs s)(0x74 := regs s 0x74 AND NOT 0x3, 0x7C := regs s 0x7C AND NOT 0x7800)
   \<and> (\<forall>n. bit (regs (tegra186_pmc_enable_nvcsi_brick_dpd s) PMC_IO_DPD_REQ) n =
            (bit (regs s PMC_IO_DPD_REQ) n \<or> n = 0 \<or> n = 1))
   \<and> (\<forall>n. bit (regs (tegra186_pmc_enable_nvcsi_brick_dpd s) PMC_IO_DPD2_REQ) n =
            (bit (regs s PMC_IO_DPD2_REQ) n \<or> n = 11 \<or> n = 12 \<or> n = 13 \<or> n = 14))
   \<and> (\<forall>n. bit (regs (tegra186_pmc_disable_nvcsi_brick_dpd s) PMC_IO_DPD_REQ) n =
            (bit (regs s PMC_IO_DPD_REQ) n \<and> n \<noteq> 0 \<and> n \<noteq> 1))
   \<and> (\<forall>n. bit (regs (tegra186_pmc_disable_nvcsi_brick_dpd s) PMC_IO_DPD2_REQ) n =
            (bit (regs s PMC_IO_DPD2_REQ) n \<and> n \<noteq> 11 \<and> n \<noteq> 12 \<and> n \<noteq> 13 \<and> n \<noteq> 14))"
proof -
  have 1: "\<forall>n. bit (regs (tegra186_pmc_enable_nvcsi_brick_dpd s) PMC_IO_DPD_REQ) n =
            (bit (regs s PMC_IO_DPD_REQ) n \<or> n = 0 \<or> n = 1)"
    unfolding brick_enable_regs PMC_IO_DPD_REQ_def by (auto simp add: bit_or_iff bit_3_int)
  have 2: "\<forall>n. bit (regs (tegra186_pmc_enable_nvcsi_brick_dpd s) PMC_IO_DPD2_REQ) n =
            (bit (regs s PMC_IO_DPD2_REQ) n \<or> n = 11 \<or> n = 12 \<or> n = 13 \<or> n = 14)"
    unfolding brick_enable_regs PMC_IO_DPD2_REQ_def by (auto simp add: bit_or_iff bit_7800_int)
  have 3: "\<forall>n. bit (regs (tegra186_pmc_disable_nvcsi_brick_dpd s) PMC_IO_DPD_REQ) n =
            (bit (regs s PMC_IO_DPD_REQ) n \<and> n \<noteq> 0 \<and> n \<noteq> 1)"
    unfolding brick_disable_regs PMC_IO_DPD_REQ_def
    by (auto simp add: bit_and_iff bit_not_3_int dest: bit_imp_le_length)
  have 4: "\<forall>n. bit (regs (tegra186_pmc_disable_nvcsi_brick_dpd s) PMC_IO_DPD2_REQ) n =
            (bit (regs s PMC_IO_DPD2_REQ) n \<and> n \<noteq> 11 \<and> n \<noteq> 12 \<and> n \<noteq> 13 \<and> n \<noteq> 14)"
    unfolding brick_disable_regs PMC_IO_DPD2_REQ_def
    by (auto simp add: bit_and_iff bit_not_7800_int dest: bit_imp_le_length)
  from brick_enable_regs [of s] brick_disable_regs [of s] 1 2 3 4 show ?thesis by blast
qed

text \<open>
  Claim C9. \<open>tegra_pmc_iopower_enable(reg, mask)\<close> is
  \<open>tegra186_pmc_register_update(reg, mask, 0)\<close>: afterwards the bits of the
  mask read 0 and the others are as before. \<open>tegra_pmc_iopower_disable(reg, mask)\<close>
  is \<open>tegra186_pmc_register_update(reg, mask, mask)\<close>: afterwards the bits of
  the mask read as the mask and the others are as before. Each undoes the
  other on the bits of the mask.
\<close>

theorem C9_iopower_enable_disable_are_updates:
  "tegra_pmc_iopower_enable reg bit_mask s =
     tegra186_pmc_register_update reg (ucast bit_mask) 0 s
   \<and> regs (tegra_pmc_iopower_enable reg bit_mask s) reg AND bit_mask = 0
   \<and> regs (tegra_pmc_iopower_enable reg bit_mask s) reg AND NOT bit_mask
       = regs s reg AND NOT bit_mask
   \<and> tegra_pmc_iopower_disable reg bit_mask s =
       tegra186_pmc_register_update reg (ucast bit_mask) (ucast bit_mask) s
   \<and> regs (tegra_pmc_iopower_disable reg bit_mask s) reg AND bit_mask = bit_mask
   \<and> regs (tegra_pmc_iopower_disable reg bit_mask s) reg AND NOT bit_mask
       = regs s reg AND NOT bit_mask
   \<and> regs (tegra_pmc_iopower_enable reg bit_mask (tegra_pmc_iopower_disable reg bit_mask s)) reg
       = regs (tegra_pmc_iopower_enable reg bit_mask s) reg
   \<and> regs (tegra_pmc_iopower_disable reg bit_mask (tegra_pmc_iopower_enable reg bit_mask s)) reg
       = regs (tegra_pmc_iopower_disable reg bit_mask s) reg"
  by (simp add: iopower_enable_reg iopower_disable_reg and_not_self clear_then_set_has
        or_self_outside and_not_idem)
     (simp add: tegra_pmc_iopower_enable_def tegra_pmc_iopower_disable_def)

text \<open>
  Claim C10. When \<open>tegra_pmc_fuse_enable_mirroring\<close> finds the
  \<open>ENABLE_REDIRECTION\<close> bit clear, its one write stores the value 1, that bit
  alone, so every other bit of \<open>PMC_FUSE_CTRL\<close>, the two latch bits among
  them, reads 0 afterwards. When \<open>tegra_pmc_fuse_disable_mirroring\<close> finds the
  bit set, its one write stores the value 2, the \<open>DISABLE_REDIRECTION\<close> bit
  alone.
\<close>

theorem C10_mirroring_writes_the_bit_alone:
  "(regs s PMC_FUSE_CTRL AND PMC_FUSE_CTRL_ENABLE_REDIRECTION = 0 \<longrightarrow>
      writes_of (events_of s (tegra_pmc_fuse_enable_mirroring s)) = [(0x1, 0x100)] \<and>
      regs (tegra_pmc_fuse_enable_mirroring s) PMC_FUSE_CTRL = PMC_FUSE_CTRL_ENABLE_REDIRECTION \<and>
      regs (tegra_pmc_fuse_enable_mirroring s) PMC_FUSE_CTRL
        AND NOT PMC_FUSE_CTRL_ENABLE_REDIRECTION = 0 \<and>
      regs (tegra_pmc_fuse_enable_mirroring s) PMC_FUSE_CTRL
        AND (PMC_FUSE_CTRL_PS18_LATCH_SET OR PMC_FUSE_CTRL_PS18_LATCH_CLEAR) = 0)
   \<and> (regs t PMC_FUSE_CTRL AND PMC_FUSE_CTRL_ENABLE_REDIRECTION \<noteq> 0 \<longrightarrow>
      writes_of (events_of t (tegra_pmc_fuse_disable_mirroring t)) = [(0x2, 0x100)] \<and>
      regs (tegra_pmc_fuse_disable_mirroring t) PMC_FUSE_CTRL = PMC_FUSE_CTRL_DISABLE_REDIRECTION \<and>
      regs (tegra_pmc_fuse_disable_mirroring t) PMC_FUSE_CTRL
        AND NOT PMC_FUSE_CTRL_DISABLE_REDIRECTION = 0 \<and>
      regs (tegra_pmc_fuse_disable_mirroring t) PMC_FUSE_CTRL
        AND (PMC_FUSE_CTRL_PS18_LATCH_SET OR PMC_FUSE_CTRL_PS18_LATCH_CLEAR) = 0)"
  by (simp add: events_of_def enable_mirroring_trace enable_mirroring_regs
        disable_mirroring_trace disable_mirroring_regs)
     (simp add: pmc_consts)

text \<open>
  Claim C10 after a latch set on a register block that reads 0:
  \<open>PMC_FUSE_CTRL\<close> is \<open>0x100\<close>, enabling mirroring makes it 1 (the latch bit
  is gone), and disabling mirroring then makes it 2.
\<close>

theorem C10_mirroring_writes_the_bit_alone_witness:
  "regs (tegra_pmc_fuse_control_ps18_latch_set zeroed) PMC_FUSE_CTRL
       AND PMC_FUSE_CTRL_ENABLE_REDIRECTION = 0
   \<and> regs (tegra_pmc_fuse_control_ps18_latch_set zeroed) PMC_FUSE_CTRL = 0x100
   \<and> regs (tegra_pmc_fuse_enable_mirroring (tegra_pmc_fuse_control_ps18_latch_set zeroed))
        PMC_FUSE_CTRL = 0x1
   \<and> regs (tegra_pmc_fuse_enable_mirroring (tegra_pmc_fuse_control_ps18_latch_set zeroed))
        PMC_FUSE_CTRL AND PMC_FUSE_CTRL_ENABLE_REDIRECTION \<noteq> 0
   \<and> regs (tegra_pmc_fuse_disable_mirroring
        (tegra_pmc_fuse_enable_mirroring (tegra_pmc_fuse_control_ps18_latch_set zeroed)))
        PMC_FUSE_CTRL = 0x2"
proof -
  let ?s = "tegra_pmc_fuse_control_ps18_latch_set zeroed"
  let ?t = "tegra_pmc_fuse_enable_mirroring ?s"
  have l: "regs ?s PMC_FUSE_CTRL = 0x100"
    by (simp add: latch_set_regs pmc_consts)
  have h1: "regs ?s PMC_FUSE_CTRL AND PMC_FUSE_CTRL_ENABLE_REDIRECTION = 0"
    by (simp add: l) (simp add: pmc_consts)
  from C10_mirroring_writes_the_bit_alone [of ?s ?t] h1
  have e: "regs ?t PMC_FUSE_CTRL = PMC_FUSE_CTRL_ENABLE_REDIRECTION" by blast
  then have h2: "regs ?t PMC_FUSE_CTRL AND PMC_FUSE_CTRL_ENABLE_REDIRECTION \<noteq> 0"
    by (simp add: pmc_consts)
  from C10_mirroring_writes_the_bit_alone [of ?s ?t] h2
  have d: "regs (tegra_pmc_fuse_disable_mirroring ?t) PMC_FUSE_CTRL
             = PMC_FUSE_CTRL_DISABLE_REDIRECTION" by blast
  have e1: "regs ?t PMC_FUSE_CTRL = 0x1" using e by (simp add: pmc_consts)
  have d1: "regs (tegra_pmc_fuse_disable_mirroring ?t) PMC_FUSE_CTRL = 0x2"
    using d by (simp add: pmc_consts)
  from h1 l e1 h2 d1 show ?thesis by blast
qed

end
